theory Spec2Isabelle
  imports Complex_Main "HOL-Library.Finite_Map" "HOL-Library.Multiset" "HOL-Library.Word"
begin

section \<open>Data model\<close>

text \<open>Modelled from the spec: the declarations of \<^verbatim>\<open>types.ts\<close> (\<^verbatim>\<open>Question\<close> and
  \<^verbatim>\<open>Quiz\<close>), which every component imports and which is not among the sources. The
  fields are those of the spec's data model and of \<^verbatim>\<open>quizSchema\<close> in
  \<^verbatim>\<open>services/geminiService.ts\<close>.\<close>

record question =
  questionText :: string
  options :: "string list"
  correctAnswer :: string

record quiz =
  questions :: "question list"

section \<open>QuizDisplay: the quiz session\<close>

text \<open>\<^verbatim>\<open>userAnswers\<close> is a \<^verbatim>\<open>Record<number, string>\<close>: a finite map with unique keys.
  \<^verbatim>\<open>Object.keys(userAnswers).length\<close> is the number of its keys.\<close>

type_synonym answers = "(nat, string) fmap"

text \<open>The three \<^verbatim>\<open>useState\<close> cells of the component.\<close>

record display_state =
  userAnswers :: answers
  showResults :: bool
  isConfirmModalOpen :: bool

definition initial_state :: display_state where
  "initial_state = \<lparr>userAnswers = fmempty, showResults = False, isConfirmModalOpen = False\<rparr>"

definition handleAnswerSelect :: "nat \<Rightarrow> string \<Rightarrow> display_state \<Rightarrow> display_state" where
  "handleAnswerSelect questionIndex option s =
     (if showResults s then s
      else s\<lparr>userAnswers := fmupd questionIndex option (userAnswers s)\<rparr>)"

definition handleSubmitClick :: "quiz \<Rightarrow> display_state \<Rightarrow> display_state" where
  "handleSubmitClick q s =
     (let answeredCount = fcard (fmdom (userAnswers s))
      in if answeredCount < length (questions q)
         then s\<lparr>isConfirmModalOpen := True\<rparr>
         else s\<lparr>showResults := True\<rparr>)"

definition handleConfirmSubmit :: "display_state \<Rightarrow> display_state" where
  "handleConfirmSubmit s = s\<lparr>showResults := True, isConfirmModalOpen := False\<rparr>"

text \<open>The modal's \<^verbatim>\<open>onCancel\<close>: \<^verbatim>\<open>() => setIsConfirmModalOpen(false)\<close>.\<close>

definition onCancel :: "display_state \<Rightarrow> display_state" where
  "onCancel s = s\<lparr>isConfirmModalOpen := False\<rparr>"

subsection \<open>The score memo\<close>

record score_result =
  score :: int
  correctCount :: int
  incorrectCount :: int
  unansweredCount :: int

text \<open>The body of the \<^verbatim>\<open>forEach\<close> callback, on the pair of counters
  \<^verbatim>\<open>(correct, incorrect)\<close>. It is only ever applied to an index of the question list.\<close>

definition tally :: "quiz \<Rightarrow> answers \<Rightarrow> nat \<Rightarrow> int \<times> int \<Rightarrow> int \<times> int" where
  "tally q ua index acc =
     (case acc of (correct, incorrect) \<Rightarrow>
        (case fmlookup ua index of
           None \<Rightarrow> (correct, incorrect)
         | Some userAnswer \<Rightarrow>
             if userAnswer = correctAnswer (questions q ! index)
             then (correct + 1, incorrect)
             else (correct, incorrect + 1)))"

definition score_memo :: "quiz \<Rightarrow> bool \<Rightarrow> display_state \<Rightarrow> score_result" where
  "score_memo q negativeMarking s =
     (if \<not> showResults s
      then \<lparr>score = 0, correctCount = 0, incorrectCount = 0,
            unansweredCount = int (length (questions q))\<rparr>
      else
        (case fold (tally q (userAnswers s)) [0..<length (questions q)] (0, 0) of
           (correct, incorrect) \<Rightarrow>
             (let finalScore = (if negativeMarking then correct - incorrect else correct);
                  unanswered = int (length (questions q)) - correct - incorrect
              in \<lparr>score = finalScore, correctCount = correct, incorrectCount = incorrect,
                   unansweredCount = unanswered\<rparr>)))"

subsection \<open>The phases of the spec, read off the component state\<close>

datatype phase = Answering | ConfirmPending | Results

text \<open>The results panel is rendered exactly when \<^verbatim>\<open>showResults\<close> holds; the confirmation
  modal is rendered exactly when \<^verbatim>\<open>isConfirmModalOpen\<close> holds.\<close>

definition phase_of :: "display_state \<Rightarrow> phase" where
  "phase_of s =
     (if showResults s then Results
      else if isConfirmModalOpen s then ConfirmPending
      else Answering)"

subsection \<open>The classification of the spec\<close>

datatype verdict = Unanswered | Correct | Incorrect

text \<open>In the spec's words: no answer recorded, unanswered; else the answer equals
  \<^verbatim>\<open>correctAnswer\<close>, correct; else incorrect.\<close>

definition classify_spec :: "quiz \<Rightarrow> answers \<Rightarrow> nat \<Rightarrow> verdict" where
  "classify_spec q ua i =
     (case fmlookup ua i of
        None \<Rightarrow> Unanswered
      | Some a \<Rightarrow> if a = correctAnswer (questions q ! i) then Correct else Incorrect)"

definition count_spec :: "verdict \<Rightarrow> quiz \<Rightarrow> answers \<Rightarrow> int" where
  "count_spec v q ua =
     int (length (filter (\<lambda>i. classify_spec q ua i = v) [0..<length (questions q)]))"


definition all_answered :: "quiz \<Rightarrow> answers \<Rightarrow> bool" where
  "all_answered q ua = list_all (\<lambda>i. fmlookup ua i \<noteq> None) [0..<length (questions q)]"

subsection \<open>The session as a run of handler calls\<close>

text \<open>The handlers that the rendered controls are wired to. \<^verbatim>\<open>QuestionCard\<close> calls
  \<^verbatim>\<open>onAnswerSelect(questionIndex, option)\<close> with the index that \<^verbatim>\<open>quiz.questions.map\<close>
  enumerates and an element of that question's \<^verbatim>\<open>options\<close>.\<close>

datatype event = Select nat string | SubmitClick | ConfirmSubmit | Cancel

fun fires :: "quiz \<Rightarrow> event \<Rightarrow> display_state \<Rightarrow> display_state" where
  "fires q (Select questionIndex option) s = handleAnswerSelect questionIndex option s"
| "fires q SubmitClick s = handleSubmitClick q s"
| "fires q ConfirmSubmit s = handleConfirmSubmit s"
| "fires q Cancel s = onCancel s"

fun offered :: "quiz \<Rightarrow> event \<Rightarrow> bool" where
  "offered q (Select questionIndex option) =
     (questionIndex < length (questions q)
      \<and> option \<in> set (options (questions q ! questionIndex)))"
| "offered q SubmitClick = True"
| "offered q ConfirmSubmit = True"
| "offered q Cancel = True"

definition run :: "quiz \<Rightarrow> event list \<Rightarrow> display_state" where
  "run q es = fold (fires q) es initial_state"

definition answers_in_range :: "quiz \<Rightarrow> answers \<Rightarrow> bool" where
  "answers_in_range q ua = (fset (fmdom ua) \<subseteq> set [0..<length (questions q)])"

section \<open>App: the shuffle\<close>

subsection \<open>Double-precision arithmetic\<close>








subsection \<open>shuffleArray\<close>






subsection \<open>The Fisher-Yates shuffle of the spec\<close>



section \<open>QuizInput\<close>

subsection \<open>The question-count field\<close>

text \<open>\<^verbatim>\<open>e.target.valueAsNumber\<close> of a number input is \<^verbatim>\<open>NaN\<close> or a finite number.\<close>

datatype value_as_number = NotANumber | Number real

text \<open>The \<^verbatim>\<open>onChange\<close> handler of the \<^verbatim>\<open>num-questions\<close> input; the result is the value
  given to \<^verbatim>\<open>setNumQuestions\<close>.\<close>

definition num_questions_onChange :: "value_as_number \<Rightarrow> int" where
  "num_questions_onChange num =
     (case num of
        NotANumber \<Rightarrow> 1
      | Number x \<Rightarrow> \<lfloor>max 1 (min 50 x)\<rfloor>)"

text \<open>In the spec's words: \<^verbatim>\<open>max(1, min(50, floor(N)))\<close>.\<close>

definition clamp_spec :: "real \<Rightarrow> int" where
  "clamp_spec N = max 1 (min 50 \<lfloor>N\<rfloor>)"

subsection \<open>Submitting the form\<close>

text \<open>The text of the text area is a JavaScript string: a sequence of UTF-16 code units,
  and \<^verbatim>\<open>length\<close> counts them. \<^verbatim>\<open>String.prototype.trim\<close> removes the leading and the
  trailing white space and line terminators of ECMAScript.\<close>

type_synonym js_string = "16 word list"

definition isWhiteSpace :: "16 word \<Rightarrow> bool" where
  "isWhiteSpace c =
     (c \<in> set [0x9, 0xA, 0xB, 0xC, 0xD, 0x20, 0xA0, 0x1680,
               0x2000, 0x2001, 0x2002, 0x2003, 0x2004, 0x2005, 0x2006, 0x2007, 0x2008,
               0x2009, 0x200A, 0x2028, 0x2029, 0x202F, 0x205F, 0x3000, 0xFEFF])"

definition js_trim :: "js_string \<Rightarrow> js_string" where
  "js_trim s = rev (dropWhile isWhiteSpace (rev (dropWhile isWhiteSpace s)))"

datatype input_mode = TextMode | PdfMode

datatype difficulty = Easy | Medium | Hard | Mixed

record js_file =
  file_name :: string
  file_type :: string

record input_state =
  mode :: input_mode
  text' :: js_string
  file' :: "js_file option"
  numQuestions :: int
  difficulty :: difficulty
  filter' :: js_string
  negativeMarking :: bool

text \<open>What a call of \<^verbatim>\<open>handleSubmit\<close> does: it sets \<^verbatim>\<open>localError\<close> and returns, or it
  calls \<^verbatim>\<open>onGenerate\<close> with the five arguments, or (PDF mode) it hands the file to
  \<^verbatim>\<open>processPdf\<close>.\<close>

datatype submit_outcome =
    Rejected string
  | Generate js_string int difficulty js_string bool
  | ProcessPdf js_file

definition handleSubmit :: "input_state \<Rightarrow> submit_outcome" where
  "handleSubmit st =
     (if numQuestions st < 1 \<or> numQuestions st > 50
      then Rejected ''Please enter a number of questions between 1 and 50.''
      else (case mode st of
              TextMode \<Rightarrow>
                if length (js_trim (text' st)) < 100
                then Rejected ''Please enter at least 100 characters of text.''
                else Generate (text' st) (numQuestions st) (difficulty st) (filter' st)
                       (negativeMarking st)
            | PdfMode \<Rightarrow>
                (case file' st of
                   None \<Rightarrow> Rejected ''Please select a PDF file.''
                 | Some f \<Rightarrow> ProcessPdf f)))"

text \<open>The two rejections of \<^verbatim>\<open>handleSubmit\<close> in text mode: the question-count check
  comes first, the text check second.\<close>

definition rejection :: "input_state \<Rightarrow> submit_outcome" where
  "rejection st =
     Rejected (if numQuestions st < 1 \<or> numQuestions st > 50
               then ''Please enter a number of questions between 1 and 50.''
               else ''Please enter at least 100 characters of text.'')"

definition isButtonDisabled :: "bool \<Rightarrow> bool \<Rightarrow> input_state \<Rightarrow> bool" where
  "isButtonDisabled isGenerating isPdfProcessing st =
     (if isGenerating \<or> isPdfProcessing then True
      else if numQuestions st < 1 \<or> numQuestions st > 50 then True
      else if mode st = TextMode \<and> length (js_trim (text' st)) < 100 then True
      else if mode st = PdfMode \<and> file' st = None then True
      else False)"

section \<open>geminiService: validating the response\<close>

text \<open>A value that \<^verbatim>\<open>JSON.parse\<close> returns. An object is the list of its own properties,
  each key once.\<close>

datatype json =
    JNull
  | JBool bool
  | JNumber real
  | JString string
  | JArray "json list"
  | JObject "(string \<times> json) list"

text \<open>What a \<^verbatim>\<open>throw\<close> carries: an \<^verbatim>\<open>Error\<close> instance with its message, or any other
  value.\<close>

datatype thrown = Error string | NonError

text \<open>The property read \<^verbatim>\<open>quizData.questions\<close>. On \<^verbatim>\<open>null\<close> it throws a \<^verbatim>\<open>TypeError\<close>,
  whose message \<open>nullMessage\<close> is the engine's; on an object it is the property or
  \<^verbatim>\<open>undefined\<close> (here \<open>None\<close>); a boolean, a number, a string and an array have no such
  property.\<close>

definition read_questions :: "string \<Rightarrow> json \<Rightarrow> thrown + json option" where
  "read_questions nullMessage quizData =
     (case quizData of
        JNull \<Rightarrow> Inl (Error nullMessage)
      | JObject props \<Rightarrow> Inr (map_of props ''questions'')
      | _ \<Rightarrow> Inr None)"

fun truthy :: "json option \<Rightarrow> bool" where
  "truthy None = False"
| "truthy (Some JNull) = False"
| "truthy (Some (JBool b)) = b"
| "truthy (Some (JNumber x)) = (x \<noteq> 0)"
| "truthy (Some (JString s)) = (s \<noteq> [])"
| "truthy (Some (JArray xs)) = True"
| "truthy (Some (JObject props)) = True"

fun isArray :: "json option \<Rightarrow> bool" where
  "isArray (Some (JArray xs)) = True"
| "isArray _ = False"

text \<open>The statements of the \<^verbatim>\<open>try\<close> block after \<^verbatim>\<open>JSON.parse\<close>.\<close>

definition basic_validation :: "string \<Rightarrow> json \<Rightarrow> thrown + json" where
  "basic_validation nullMessage quizData =
     (case read_questions nullMessage quizData of
        Inl e \<Rightarrow> Inl e
      | Inr qs \<Rightarrow>
          if \<not> truthy qs \<or> \<not> isArray qs
          then Inl (Error ''Invalid quiz format received from API.'')
          else Inr quizData)"

text \<open>The \<^verbatim>\<open>catch\<close> block: the message of the \<^verbatim>\<open>Error\<close> it throws.\<close>

definition catch_block :: "thrown \<Rightarrow> string" where
  "catch_block e =
     (case e of
        Error message \<Rightarrow> ''Failed to generate quiz. '' @ message
      | NonError \<Rightarrow> ''An unknown error occurred while generating the quiz.'')"

text \<open>\<^verbatim>\<open>generateQuizFromText\<close> from the point where the request and \<^verbatim>\<open>JSON.parse\<close> have
  run: \<open>parsed\<close> is what they threw, or the parsed value. The result is the message of the
  rejection, or the quiz returned.\<close>

definition generateQuizFromText :: "string \<Rightarrow> thrown + json \<Rightarrow> string + json" where
  "generateQuizFromText nullMessage parsed =
     (case (case parsed of
              Inl e \<Rightarrow> Inl e
            | Inr quizData \<Rightarrow> basic_validation nullMessage quizData) of
        Inl e \<Rightarrow> Inl (catch_block e)
      | Inr quizData \<Rightarrow> Inr quizData)"

text \<open>In the spec's words: the parsed response has a \<^verbatim>\<open>questions\<close> field that is a
  sequence.\<close>

definition has_questions_sequence :: "json \<Rightarrow> bool" where
  "has_questions_sequence d =
     (case d of
        JObject props \<Rightarrow>
          (case map_of props ''questions'' of Some (JArray xs) \<Rightarrow> True | _ \<Rightarrow> False)
      | _ \<Rightarrow> False)"

section \<open>Concrete inputs\<close>

definition q_paris :: question where
  "q_paris = \<lparr>questionText = ''Capital of France?'',
              options = [''Paris'', ''Rome'', ''Oslo'', ''Bonn''], correctAnswer = ''Paris''\<rparr>"

definition q_four :: question where
  "q_four = \<lparr>questionText = ''Two plus two?'',
             options = [''3'', ''4'', ''5'', ''6''], correctAnswer = ''4''\<rparr>"

definition q_red :: question where
  "q_red = \<lparr>questionText = ''Colour of blood?'',
            options = [''Red'', ''Blue'', ''Green'', ''Grey''], correctAnswer = ''Red''\<rparr>"

definition quiz3 :: quiz where
  "quiz3 = \<lparr>questions = [q_paris, q_four, q_red]\<rparr>"

definition quiz1 :: quiz where
  "quiz1 = \<lparr>questions = [q_four]\<rparr>"

text \<open>The scenario of the spec: question 0 answered correctly, question 1 incorrectly,
  question 2 left open, then submit and confirm.\<close>

definition scenario :: "event list" where
  "scenario = [Select 0 ''Paris'', Select 1 ''5'', SubmitClick, ConfirmSubmit]"


definition letters :: "nat \<Rightarrow> js_string" where
  "letters n = replicate n 0x61"

definition padded_100 :: js_string where
  "padded_100 = letters 99 @ [0x20]"

definition form :: "js_string \<Rightarrow> input_state" where
  "form t = \<lparr>mode = TextMode, text' = t, file' = None, numQuestions = 10,
             difficulty = Medium, filter' = [], negativeMarking = False\<rparr>"

definition answers_scenario :: answers where
  "answers_scenario = fmupd 1 ''5'' (fmupd 0 ''Paris'' fmempty)"

definition answers_right :: answers where
  "answers_right = fmupd 0 ''4'' fmempty"

definition answers_wrong :: answers where
  "answers_wrong = fmupd 0 ''5'' fmempty"

section \<open>Scoring\<close>

lemma tally_classify:
  "tally q ua i (c, w) =
     (c + (if classify_spec q ua i = Correct then 1 else 0),
      w + (if classify_spec q ua i = Incorrect then 1 else 0))"
  by (cases "fmlookup ua i") (simp_all add: tally_def classify_spec_def)

lemma fold_tally:
  "fold (tally q ua) is (c, w) =
     (c + int (length (filter (\<lambda>i. classify_spec q ua i = Correct) is)),
      w + int (length (filter (\<lambda>i. classify_spec q ua i = Incorrect) is)))"
proof (induction "is" arbitrary: c w)
  case Nil
  show ?case by simp
next
  case (Cons i "is")
  show ?case by (simp add: tally_classify Cons.IH)
qed

lemma verdicts_partition:
  "length (filter (\<lambda>i. classify_spec q ua i = Correct) is)
     + length (filter (\<lambda>i. classify_spec q ua i = Incorrect) is)
     + length (filter (\<lambda>i. classify_spec q ua i = Unanswered) is) = length is"
proof (induction "is")
  case Nil
  show ?case by simp
next
  case (Cons i "is")
  then show ?case by (cases "classify_spec q ua i") simp_all
qed

lemma score_memo_results:
  assumes "showResults s"
  shows "score_memo q nm s =
     \<lparr>score = (if nm then count_spec Correct q (userAnswers s) - count_spec Incorrect q (userAnswers s)
                else count_spec Correct q (userAnswers s)),
      correctCount = count_spec Correct q (userAnswers s),
      incorrectCount = count_spec Incorrect q (userAnswers s),
      unansweredCount = int (length (questions q)) - count_spec Correct q (userAnswers s)
                          - count_spec Incorrect q (userAnswers s)\<rparr>"
  using assms by (simp add: score_memo_def fold_tally count_spec_def)

lemma count_spec_sum:
  "count_spec Correct q ua + count_spec Incorrect q ua + count_spec Unanswered q ua
     = int (length (questions q))"
  using verdicts_partition [of q ua "[0..<length (questions q)]"]
  by (simp add: count_spec_def)

lemma phase_Results_iff: "phase_of s = Results \<longleftrightarrow> showResults s"
  by (simp add: phase_of_def)

lemma run_scenario:
  "run quiz3 scenario =
     \<lparr>userAnswers = answers_scenario, showResults = True,
      isConfirmModalOpen = False\<rparr>"
  by (simp add: quiz3_def scenario_def run_def initial_state_def handleAnswerSelect_def
      handleSubmitClick_def handleConfirmSubmit_def fcard_def answers_scenario_def)

lemma count_spec_scenario:
  "count_spec Correct quiz3 answers_scenario = 1"
  "count_spec Incorrect quiz3 answers_scenario = 1"
  "count_spec Unanswered quiz3 answers_scenario = 1"
  by (simp_all add: count_spec_def classify_spec_def upt_rec quiz3_def q_paris_def q_four_def
      q_red_def answers_scenario_def)

lemma score_memo_scenario:
  "score_memo quiz3 nm (run quiz3 scenario) =
     \<lparr>score = (if nm then 0 else 1), correctCount = 1, incorrectCount = 1,
      unansweredCount = 1\<rparr>"
proof -
  have res: "showResults (run quiz3 scenario)" by (simp add: run_scenario)
  have ua: "userAnswers (run quiz3 scenario) = answers_scenario" by (simp add: run_scenario)
  have len: "length (questions quiz3) = 3" by (simp add: quiz3_def)
  show ?thesis
    unfolding score_memo_results [OF res] ua count_spec_scenario len by simp
qed

lemma run_wrong:
  "run quiz1 [Select 0 ''5'', SubmitClick] =
     \<lparr>userAnswers = answers_wrong, showResults = True, isConfirmModalOpen = False\<rparr>"
  by (simp add: quiz1_def run_def initial_state_def handleAnswerSelect_def
      handleSubmitClick_def fcard_def answers_wrong_def)

lemma count_spec_wrong:
  "count_spec Correct quiz1 answers_wrong = 0"
  "count_spec Incorrect quiz1 answers_wrong = 1"
  by (simp_all add: count_spec_def classify_spec_def quiz1_def q_four_def answers_wrong_def)

text \<open>Claim C1. Once the results are shown, the final score is the number of correct
  answers when negative marking is off, and the number of correct answers minus the number
  of incorrect ones when it is on, where an index counts as correct or incorrect by the
  classification of the spec. With negative marking on the score can be negative: there is
  no floor at zero.\<close>

theorem final_score:
  assumes "phase_of s = Results"
  shows "score (score_memo q nm s) =
           (if nm
            then correctCount (score_memo q nm s)
                   - incorrectCount (score_memo q nm s)
            else correctCount (score_memo q nm s))
         \<and> correctCount (score_memo q nm s) = count_spec Correct q (userAnswers s)
         \<and> incorrectCount (score_memo q nm s)
             = count_spec Incorrect q (userAnswers s)
         \<and> (\<exists>q' s'. phase_of s' = Results \<and> score (score_memo q' True s') < 0)"
proof -
  from assms have res: "showResults s" by (simp add: phase_Results_iff)
  have neg: "\<exists>q' s'. phase_of s' = Results \<and> score (score_memo q' True s') < 0"
  proof (intro exI conjI)
    show "phase_of (run quiz1 [Select 0 ''5'', SubmitClick]) = Results"
      by (simp add: run_wrong phase_of_def)
    show "score (score_memo quiz1 True (run quiz1 [Select 0 ''5'', SubmitClick])) < 0"
      by (simp add: run_wrong score_memo_results count_spec_wrong)
  qed
  show ?thesis using neg by (simp add: score_memo_results [OF res])
qed

theorem final_score_witness:
  "phase_of (run quiz3 scenario) = Results
   \<and> score (score_memo quiz3 False (run quiz3 scenario)) = 1
   \<and> score (score_memo quiz3 True (run quiz3 scenario)) = 0"
proof -
  have ph: "phase_of (run quiz3 scenario) = Results"
    by (simp add: run_scenario phase_of_def)
  from final_score [OF ph, of quiz3 False] final_score [OF ph, of quiz3 True] ph
  show ?thesis by (simp add: run_scenario count_spec_scenario)
qed

text \<open>Claim C2. Once the results are shown, the three counts add up to the number of
  questions, and each of them is the number of question indices \<open>0..N-1\<close> that the
  classification of the spec puts in its class: unanswered when no answer is recorded,
  correct when the recorded answer equals the question's \<^verbatim>\<open>correctAnswer\<close>, incorrect
  otherwise. This holds for every answer map, whatever its keys.\<close>

theorem counts_partition:
  assumes "phase_of s = Results"
  shows "correctCount (score_memo q nm s)
           + incorrectCount (score_memo q nm s)
           + unansweredCount (score_memo q nm s) = int (length (questions q))
         \<and> correctCount (score_memo q nm s) = count_spec Correct q (userAnswers s)
         \<and> incorrectCount (score_memo q nm s)
             = count_spec Incorrect q (userAnswers s)
         \<and> unansweredCount (score_memo q nm s)
             = count_spec Unanswered q (userAnswers s)"
proof -
  from assms have res: "showResults s" by (simp add: phase_Results_iff)
  show ?thesis
    using count_spec_sum [of q "userAnswers s"] by (simp add: score_memo_results [OF res])
qed

theorem counts_partition_witness:
  "phase_of (run quiz3 scenario) = Results
   \<and> correctCount (score_memo quiz3 False (run quiz3 scenario)) = 1
   \<and> incorrectCount (score_memo quiz3 False (run quiz3 scenario)) = 1
   \<and> unansweredCount (score_memo quiz3 False (run quiz3 scenario)) = 1"
proof -
  have ph: "phase_of (run quiz3 scenario) = Results"
    by (simp add: run_scenario phase_of_def)
  from counts_partition [OF ph, of quiz3 False] ph
  show ?thesis by (simp add: run_scenario count_spec_scenario)
qed

text \<open>Claim C7. The negative-marking flag changes at most the final score: the three
  counts computed with the flag on are those computed with the flag off.\<close>

theorem negative_marking_frame:
  "correctCount (score_memo q True s) = correctCount (score_memo q False s)
   \<and> incorrectCount (score_memo q True s) = incorrectCount (score_memo q False s)
   \<and> unansweredCount (score_memo q True s) = unansweredCount (score_memo q False s)"
  by (simp add: score_memo_def split: prod.splits)

theorem negative_marking_frame_witness:
  "correctCount (score_memo quiz3 True (run quiz3 scenario))
     = correctCount (score_memo quiz3 False (run quiz3 scenario))
   \<and> score (score_memo quiz3 True (run quiz3 scenario))
     \<noteq> score (score_memo quiz3 False (run quiz3 scenario))"
  using negative_marking_frame [of quiz3 "run quiz3 scenario"]
  by (simp add: score_memo_scenario)

section \<open>The session state machine\<close>


lemma run_submit_empty:
  "run quiz1 [SubmitClick] =
     \<lparr>userAnswers = fmempty, showResults = False, isConfirmModalOpen = True\<rparr>"
  by (simp add: quiz1_def run_def initial_state_def handleSubmitClick_def fcard_def)

lemma run_right:
  "run quiz1 [Select 0 ''4''] =
     \<lparr>userAnswers = answers_right, showResults = False, isConfirmModalOpen = False\<rparr>"
  by (simp add: run_def initial_state_def handleAnswerSelect_def answers_right_def)

lemma length_quiz1: "length (questions quiz1) = 1"
  by (simp add: quiz1_def)

lemma answered_iff: "fmlookup ua i \<noteq> None \<longleftrightarrow> i \<in> fset (fmdom ua)"
  by (cases "fmlookup ua i") (simp_all add: fmdom_notI fmdomI)

lemma all_answered_iff:
  "all_answered q ua \<longleftrightarrow> {0..<length (questions q)} \<subseteq> fset (fmdom ua)"
  unfolding all_answered_def list_all_iff answered_iff by auto


lemma answered_count_less:
  assumes "answers_in_range q ua"
  shows "fcard (fmdom ua) < length (questions q) \<longleftrightarrow> \<not> all_answered q ua"
proof -
  let ?K = "fset (fmdom ua)" and ?N = "{0..<length (questions q)}"
  from assms have sub: "?K \<subseteq> ?N" by (simp add: answers_in_range_def)
  have fin: "finite ?N" by simp
  have le: "card ?K \<le> card ?N"
    using fin sub by (rule card_mono)
  have eq: "card ?K = card ?N \<longleftrightarrow> ?K = ?N"
  proof
    assume "card ?K = card ?N"
    then show "?K = ?N" by (rule card_subset_eq [OF fin sub])
  next
    assume "?K = ?N"
    then show "card ?K = card ?N" by (rule arg_cong)
  qed
  have "all_answered q ua \<longleftrightarrow> ?K = ?N"
    unfolding all_answered_iff using sub by blast
  moreover have "fcard (fmdom ua) = card ?K" by (simp add: fcard.rep_eq)
  moreover have "card ?N = length (questions q)" by simp
  ultimately show ?thesis using le eq by linarith
qed


text \<open>Claim C3, as stated, fails: \<^verbatim>\<open>handleAnswerSelect\<close> is guarded by
  \<^verbatim>\<open>showResults\<close> alone. After a submit with an unanswered question the modal is open
  (phase \<open>ConfirmPending\<close>) and a selection still changes the answer map.\<close>

theorem select_in_confirm_pending_counterexample:
  "phase_of (run quiz1 [SubmitClick]) = ConfirmPending
   \<and> userAnswers (handleAnswerSelect 0 ''4'' (run quiz1 [SubmitClick]))
       \<noteq> userAnswers (run quiz1 [SubmitClick])"
proof -
  have "fmlookup (fmupd 0 ''4'' fmempty) (0::nat) \<noteq> fmlookup (fmempty :: answers) 0"
    by simp
  then have "fmupd 0 ''4'' fmempty \<noteq> (fmempty :: answers)"
    by metis
  then show ?thesis
    by (simp add: run_submit_empty phase_of_def handleAnswerSelect_def)
qed

text \<open>Claim C3, amended. In every phase other than \<open>Results\<close> (that is, in
  \<open>Answering\<close> and in \<open>ConfirmPending\<close>) \<^verbatim>\<open>handleAnswerSelect\<close> records the option
  for the index, overwriting any prior answer for it, leaves the other answers and the phase
  as they are; in \<open>Results\<close> it is a no-op.\<close>

theorem select_answer_guard:
  "(phase_of s \<noteq> Results \<longrightarrow>
      handleAnswerSelect i opt s = s\<lparr>userAnswers := fmupd i opt (userAnswers s)\<rparr>
      \<and> fmlookup (userAnswers (handleAnswerSelect i opt s)) i = Some opt
      \<and> (\<forall>j. j \<noteq> i \<longrightarrow>
            fmlookup (userAnswers (handleAnswerSelect i opt s)) j = fmlookup (userAnswers s) j)
      \<and> phase_of (handleAnswerSelect i opt s) = phase_of s)
   \<and> (phase_of s = Results \<longrightarrow> handleAnswerSelect i opt s = s)"
  by (simp add: phase_of_def handleAnswerSelect_def)

theorem select_answer_guard_witness:
  "phase_of (run quiz1 [SubmitClick]) \<noteq> Results
   \<and> fmlookup (userAnswers (handleAnswerSelect 0 ''4'' (run quiz1 [SubmitClick]))) 0 = Some ''4''
   \<and> phase_of (run quiz3 scenario) = Results
   \<and> handleAnswerSelect 2 ''Red'' (run quiz3 scenario) = run quiz3 scenario"
proof -
  have a: "phase_of (run quiz1 [SubmitClick]) \<noteq> Results"
    by (simp add: run_submit_empty phase_of_def)
  have b: "phase_of (run quiz3 scenario) = Results"
    by (simp add: run_scenario phase_of_def)
  from select_answer_guard [of "run quiz1 [SubmitClick]" 0 "''4''"] a
  have c: "fmlookup (userAnswers (handleAnswerSelect 0 ''4'' (run quiz1 [SubmitClick]))) 0
             = Some ''4''"
    by simp
  from select_answer_guard [of "run quiz3 scenario" 2 "''Red''"] b
  have d: "handleAnswerSelect 2 ''Red'' (run quiz3 scenario) = run quiz3 scenario"
    by simp
  from a b c d show ?thesis by simp
qed

text \<open>Claim C4. In phase \<open>Answering\<close>, with the keys of the answer map among the
  question indices, \<^verbatim>\<open>handleSubmitClick\<close> leads to \<open>Results\<close> if every index
  \<open>0..N-1\<close> has an answer and to \<open>ConfirmPending\<close> otherwise. In phase
  \<open>ConfirmPending\<close>, \<^verbatim>\<open>handleConfirmSubmit\<close> leads to \<open>Results\<close> and the modal's cancel
  leads back to \<open>Answering\<close>. None of them changes the answer map.\<close>

theorem submit_transitions:
  "(phase_of s = Answering \<and> answers_in_range q (userAnswers s) \<longrightarrow>
      phase_of (handleSubmitClick q s)
        = (if all_answered q (userAnswers s) then Results else ConfirmPending)
      \<and> userAnswers (handleSubmitClick q s) = userAnswers s)
   \<and> (phase_of s = ConfirmPending \<longrightarrow>
        phase_of (handleConfirmSubmit s) = Results
        \<and> userAnswers (handleConfirmSubmit s) = userAnswers s
        \<and> phase_of (onCancel s) = Answering
        \<and> userAnswers (onCancel s) = userAnswers s)"
proof (intro conjI impI)
  assume a: "phase_of s = Answering \<and> answers_in_range q (userAnswers s)"
  then have flags: "\<not> showResults s" "\<not> isConfirmModalOpen s"
    by (auto simp: phase_of_def split: if_splits)
  from a have cnt: "fcard (fmdom (userAnswers s)) < length (questions q)
      \<longleftrightarrow> \<not> all_answered q (userAnswers s)"
    by (simp add: answered_count_less)
  show "phase_of (handleSubmitClick q s)
        = (if all_answered q (userAnswers s) then Results else ConfirmPending)"
    using flags cnt by (simp add: handleSubmitClick_def phase_of_def)
  show "userAnswers (handleSubmitClick q s) = userAnswers s"
    by (simp add: handleSubmitClick_def Let_def)
next
  assume "phase_of s = ConfirmPending"
  then have flags: "\<not> showResults s" "isConfirmModalOpen s"
    by (auto simp: phase_of_def split: if_splits)
  show "phase_of (handleConfirmSubmit s) = Results"
    by (simp add: handleConfirmSubmit_def phase_of_def)
  show "userAnswers (handleConfirmSubmit s) = userAnswers s"
    by (simp add: handleConfirmSubmit_def)
  show "phase_of (onCancel s) = Answering"
    using flags by (simp add: onCancel_def phase_of_def)
  show "userAnswers (onCancel s) = userAnswers s"
    by (simp add: onCancel_def)
qed

theorem submit_transitions_witness:
  "phase_of initial_state = Answering \<and> answers_in_range quiz1 (userAnswers initial_state)
   \<and> phase_of (handleSubmitClick quiz1 initial_state) = ConfirmPending
   \<and> phase_of (run quiz1 [Select 0 ''4'']) = Answering
   \<and> answers_in_range quiz1 (userAnswers (run quiz1 [Select 0 ''4'']))
   \<and> phase_of (handleSubmitClick quiz1 (run quiz1 [Select 0 ''4''])) = Results
   \<and> phase_of (run quiz1 [SubmitClick]) = ConfirmPending
   \<and> phase_of (handleConfirmSubmit (run quiz1 [SubmitClick])) = Results
   \<and> phase_of (onCancel (run quiz1 [SubmitClick])) = Answering"
proof -
  have a1: "phase_of initial_state = Answering \<and> answers_in_range quiz1 (userAnswers initial_state)"
    by (simp add: initial_state_def phase_of_def answers_in_range_def)
  have n1: "\<not> all_answered quiz1 (userAnswers initial_state)"
    by (simp add: initial_state_def all_answered_def length_quiz1)
  have a2: "phase_of (run quiz1 [Select 0 ''4'']) = Answering
      \<and> answers_in_range quiz1 (userAnswers (run quiz1 [Select 0 ''4'']))"
    by (simp add: run_right phase_of_def answers_in_range_def answers_right_def length_quiz1)
  have y2: "all_answered quiz1 (userAnswers (run quiz1 [Select 0 ''4'']))"
    by (simp add: run_right all_answered_def answers_right_def length_quiz1)
  have a3: "phase_of (run quiz1 [SubmitClick]) = ConfirmPending"
    by (simp add: run_submit_empty phase_of_def)
  from submit_transitions [of initial_state quiz1] a1 n1
  have b1: "phase_of (handleSubmitClick quiz1 initial_state) = ConfirmPending"
    by simp
  from submit_transitions [of "run quiz1 [Select 0 ''4'']" quiz1] a2 y2
  have b2: "phase_of (handleSubmitClick quiz1 (run quiz1 [Select 0 ''4''])) = Results"
    by simp
  from submit_transitions [of "run quiz1 [SubmitClick]"] a3
  have b3: "phase_of (handleConfirmSubmit (run quiz1 [SubmitClick])) = Results
      \<and> phase_of (onCancel (run quiz1 [SubmitClick])) = Answering"
    by simp
  from a1 a2 a3 b1 b2 b3 show ?thesis by simp
qed

lemma fires_in_range:
  assumes "offered q e" and "answers_in_range q (userAnswers s)"
  shows "answers_in_range q (userAnswers (fires q e s))"
  using assms
  by (cases e)
     (auto simp: answers_in_range_def handleAnswerSelect_def handleSubmitClick_def
        handleConfirmSubmit_def onCancel_def Let_def)

lemma fold_fires_in_range:
  "list_all (offered q) es \<Longrightarrow> answers_in_range q (userAnswers s)
     \<Longrightarrow> answers_in_range q (userAnswers (fold (fires q) es s))"
  by (induction es arbitrary: s) (simp_all add: fires_in_range)

lemma count_spec_nonneg: "0 \<le> count_spec v q ua"
  by (simp add: count_spec_def)

lemma unanswered_nonneg: "0 \<le> unansweredCount (score_memo q nm s)"
proof (cases "showResults s")
  case True
  then show ?thesis
    using count_spec_sum [of q "userAnswers s"] count_spec_nonneg [of Unanswered q "userAnswers s"]
    by (simp add: score_memo_results)
next
  case False
  then show ?thesis by (simp add: score_memo_def)
qed

text \<open>Claim C10. After any sequence of handler calls that the rendered controls can
  make (a selection only with an index of the question list and one of that question's
  options), every key of the answer map is a question index in \<open>[0, N-1]\<close>, and the
  recomputed \<^verbatim>\<open>unansweredCount\<close> is not negative.\<close>

theorem answers_stay_in_range:
  assumes "list_all (offered q) es"
  shows "answers_in_range q (userAnswers (run q es))
         \<and> (\<forall>i. i |\<in>| fmdom (userAnswers (run q es)) \<longrightarrow> i < length (questions q))
         \<and> 0 \<le> unansweredCount (score_memo q nm (run q es))"
proof -
  have "answers_in_range q (userAnswers initial_state)"
    by (simp add: initial_state_def answers_in_range_def)
  with assms have inv: "answers_in_range q (userAnswers (run q es))"
    unfolding run_def by (rule fold_fires_in_range)
  then have "\<forall>i. i |\<in>| fmdom (userAnswers (run q es)) \<longrightarrow> i < length (questions q)"
    by (auto simp: answers_in_range_def)
  with inv show ?thesis by (simp add: unanswered_nonneg)
qed

theorem answers_stay_in_range_witness:
  "list_all (offered quiz3) scenario
   \<and> answers_in_range quiz3 (userAnswers (run quiz3 scenario))
   \<and> 0 \<le> unansweredCount (score_memo quiz3 True (run quiz3 scenario))"
proof -
  have h: "list_all (offered quiz3) scenario"
    by (simp add: scenario_def quiz3_def q_paris_def q_four_def)
  from answers_stay_in_range [OF h, of True] h show ?thesis by simp
qed


section \<open>The shuffle\<close>

subsection \<open>Rounding to a double\<close>














subsection \<open>The loop\<close>

















section \<open>The question count\<close>

text \<open>Claim C6. For every numeric input \<open>N\<close> the handler stores
  \<open>max(1, min(50, floor(N)))\<close>: the source's \<open>floor(max(1, min(50, N)))\<close> is the same
  number for every real \<open>N\<close>. For a non-numeric input it stores 1.\<close>

theorem clamp_floor:
  "num_questions_onChange (Number N) = clamp_spec N
   \<and> num_questions_onChange NotANumber = 1"
proof -
  have "\<lfloor>max 1 (min 50 N)\<rfloor> = max 1 (min 50 \<lfloor>N\<rfloor>)"
  proof -
    consider "N < 1" | "1 \<le> N" "N < 50" | "50 \<le> N" by linarith
    then show ?thesis
    proof cases
      case 1
      then have "\<lfloor>N\<rfloor> < 1" by (simp add: floor_less_iff)
      with 1 show ?thesis by (simp add: max_def min_def)
    next
      case 2
      then have "1 \<le> \<lfloor>N\<rfloor>" "\<lfloor>N\<rfloor> < 50" by (simp_all add: le_floor_iff floor_less_iff)
      with 2 show ?thesis by (simp add: max_def min_def)
    next
      case 3
      then have "50 \<le> \<lfloor>N\<rfloor>" by (simp add: le_floor_iff)
      with 3 show ?thesis by (simp add: max_def min_def)
    qed
  qed
  then show ?thesis by (simp add: num_questions_onChange_def clamp_spec_def)
qed

theorem clamp_floor_witness:
  "num_questions_onChange (Number (7 / 2)) = 3
   \<and> num_questions_onChange (Number 1000) = 50
   \<and> num_questions_onChange (Number (- 3 / 2)) = 1
   \<and> num_questions_onChange NotANumber = 1"
  using clamp_floor [of "7 / 2"] clamp_floor [of 1000] clamp_floor [of "- 3 / 2"]
  by (simp add: clamp_spec_def)


section \<open>The text gate\<close>


lemma length_js_trim_le: "length (js_trim s) \<le> length s"
proof -
  have "length (js_trim s) \<le> length (dropWhile isWhiteSpace s)"
    using length_dropWhile_le [of isWhiteSpace "rev (dropWhile isWhiteSpace s)"]
    by (simp add: js_trim_def)
  also have "\<dots> \<le> length s" by (rule length_dropWhile_le)
  finally show ?thesis .
qed

lemma js_trim_id:
  assumes "s \<noteq> []" and "\<not> isWhiteSpace (hd s)" and "\<not> isWhiteSpace (last s)"
  shows "js_trim s = s"
proof -
  from assms(2) have front: "dropWhile isWhiteSpace s = s"
    by (simp add: dropWhile_eq_self_iff)
  from assms(1,3) have "dropWhile isWhiteSpace (rev s) = rev s"
    by (simp add: dropWhile_eq_self_iff hd_rev)
  with front show ?thesis by (simp add: js_trim_def)
qed

lemma handleSubmit_text:
  assumes "mode st = TextMode"
  shows "handleSubmit st =
     (if numQuestions st < 1 \<or> numQuestions st > 50
      then Rejected ''Please enter a number of questions between 1 and 50.''
      else if length (js_trim (text' st)) < 100
      then Rejected ''Please enter at least 100 characters of text.''
      else Generate (text' st) (numQuestions st) (difficulty st) (filter' st)
             (negativeMarking st))"
  using assms by (simp add: handleSubmit_def)

lemma isButtonDisabled_text:
  assumes "mode st = TextMode"
  shows "isButtonDisabled g p st \<longleftrightarrow>
     g \<or> p \<or> numQuestions st < 1 \<or> numQuestions st > 50
       \<or> length (js_trim (text' st)) < 100"
  using assms by (simp add: isButtonDisabled_def)

lemma length_letters: "length (letters n) = n"
  by (simp add: letters_def)

lemma length_padded_100: "length padded_100 = 100"
  by (simp add: padded_100_def letters_def)

lemma trim_99_1: "length (js_trim padded_100) = 99"
  by (simp add: padded_100_def letters_def js_trim_def isWhiteSpace_def)

lemma trim_99_0: "length (js_trim (letters 99)) = 99"
  by (simp add: letters_def js_trim_def isWhiteSpace_def)

lemma trim_100_0: "length (js_trim (letters 100)) = 100"
  by (simp add: letters_def js_trim_def isWhiteSpace_def)

lemma ends_100_0:
  "\<not> isWhiteSpace (hd (letters 100))" "\<not> isWhiteSpace (last (letters 100))"
  by (simp_all add: letters_def isWhiteSpace_def)

text \<open>Claim C9, as stated, fails: the check is on \<^verbatim>\<open>text.trim().length\<close>. A text of
  exactly 100 characters, 99 letters and a trailing space, is rejected.\<close>

theorem padded_100_counterexample:
  "mode (form padded_100) = TextMode
   \<and> length (text' (form padded_100)) = 100
   \<and> handleSubmit (form padded_100)
       = Rejected ''Please enter at least 100 characters of text.''"
  by (simp add: form_def handleSubmit_def trim_99_1 length_padded_100)

text \<open>Claim C9, amended. In text mode a text whose length after trimming is below 100,
  and so every text of exactly 99 characters, is rejected with a validation error
  (\<^verbatim>\<open>onGenerate\<close> is not called) and the button is disabled. A text whose length after
  trimming is at least 100, and so every text of exactly 100 characters that neither starts
  nor ends with white space, is accepted when the question count is within 1..50:
  \<^verbatim>\<open>onGenerate\<close> is called with the untrimmed text.\<close>

theorem text_length_gate:
  assumes "mode st = TextMode"
  shows "(length (js_trim (text' st)) < 100 \<longrightarrow>
            handleSubmit st = rejection st \<and> isButtonDisabled g p st)
         \<and> (length (text' st) = 99 \<longrightarrow>
            handleSubmit st = rejection st \<and> isButtonDisabled g p st)
         \<and> (100 \<le> length (js_trim (text' st)) \<and> 1 \<le> numQuestions st
              \<and> numQuestions st \<le> 50 \<longrightarrow>
            handleSubmit st = Generate (text' st) (numQuestions st) (difficulty st)
                                (filter' st) (negativeMarking st)
            \<and> (isButtonDisabled g p st \<longleftrightarrow> g \<or> p))
         \<and> (length (text' st) = 100 \<and> \<not> isWhiteSpace (hd (text' st))
              \<and> \<not> isWhiteSpace (last (text' st)) \<and> 1 \<le> numQuestions st
              \<and> numQuestions st \<le> 50 \<longrightarrow>
            handleSubmit st = Generate (text' st) (numQuestions st) (difficulty st)
                                (filter' st) (negativeMarking st))"
proof (intro conjI impI)
  assume "length (js_trim (text' st)) < 100"
  then show "handleSubmit st = rejection st" "isButtonDisabled g p st"
    by (simp_all add: handleSubmit_text [OF assms] isButtonDisabled_text [OF assms]
        rejection_def)
next
  assume "length (text' st) = 99"
  with length_js_trim_le [of "text' st"] have "length (js_trim (text' st)) < 100" by simp
  then show "handleSubmit st = rejection st" "isButtonDisabled g p st"
    by (simp_all add: handleSubmit_text [OF assms] isButtonDisabled_text [OF assms]
        rejection_def)
next
  assume a: "100 \<le> length (js_trim (text' st)) \<and> 1 \<le> numQuestions st
      \<and> numQuestions st \<le> 50"
  then show "handleSubmit st = Generate (text' st) (numQuestions st) (difficulty st)
      (filter' st) (negativeMarking st)"
    by (simp add: handleSubmit_text [OF assms])
  from a show "isButtonDisabled g p st \<longleftrightarrow> g \<or> p"
    by (auto simp: isButtonDisabled_text [OF assms])
next
  assume a: "length (text' st) = 100 \<and> \<not> isWhiteSpace (hd (text' st))
      \<and> \<not> isWhiteSpace (last (text' st)) \<and> 1 \<le> numQuestions st
      \<and> numQuestions st \<le> 50"
  then have "text' st \<noteq> []" by auto
  with a have "js_trim (text' st) = text' st" by (simp add: js_trim_id)
  with a show "handleSubmit st = Generate (text' st) (numQuestions st) (difficulty st)
      (filter' st) (negativeMarking st)"
    by (simp add: handleSubmit_text [OF assms])
qed

theorem text_length_gate_witness:
  "mode (form padded_100) = TextMode
   \<and> length (js_trim (text' (form padded_100))) < 100
   \<and> handleSubmit (form padded_100)
       = Rejected ''Please enter at least 100 characters of text.''
   \<and> length (text' (form (letters 99))) = 99
   \<and> handleSubmit (form (letters 99))
       = Rejected ''Please enter at least 100 characters of text.''
   \<and> length (text' (form (letters 100))) = 100
   \<and> 100 \<le> length (js_trim (text' (form (letters 100))))
   \<and> handleSubmit (form (letters 100)) = Generate (letters 100) 10 Medium [] False"
proof -
  have m: "mode (form t) = TextMode" for t by (simp add: form_def)
  have t: "text' (form t) = t" for t by (simp add: form_def)
  have n: "numQuestions (form t) = 10" for t by (simp add: form_def)
  have a: "length (js_trim (text' (form padded_100))) < 100"
    by (simp add: t trim_99_1)
  have b: "length (text' (form (letters 99))) = 99"
    by (simp add: t length_letters)
  have c: "length (text' (form (letters 100))) = 100
      \<and> \<not> isWhiteSpace (hd (text' (form (letters 100))))
      \<and> \<not> isWhiteSpace (last (text' (form (letters 100))))
      \<and> 1 \<le> numQuestions (form (letters 100))
      \<and> numQuestions (form (letters 100)) \<le> 50"
    by (simp add: t n length_letters ends_100_0)
  have d: "100 \<le> length (js_trim (text' (form (letters 100))))
      \<and> 1 \<le> numQuestions (form (letters 100))
      \<and> numQuestions (form (letters 100)) \<le> 50"
    by (simp add: t n trim_100_0)
  from text_length_gate [OF m, of "padded_100"] a
  have r1: "handleSubmit (form padded_100) = rejection (form padded_100)"
    by (rule_tac conjunct1) blast
  from text_length_gate [OF m, of "letters 99"] b
  have r2: "handleSubmit (form (letters 99)) = rejection (form (letters 99))"
    by (rule_tac conjunct1) blast
  from text_length_gate [OF m, of "letters 100"] c d
  have r3: "handleSubmit (form (letters 100)) =
      Generate (text' (form (letters 100))) (numQuestions (form (letters 100)))
        (difficulty (form (letters 100))) (filter' (form (letters 100)))
        (negativeMarking (form (letters 100)))"
    by blast
  have rej: "rejection (form t) = Rejected ''Please enter at least 100 characters of text.''"
    for t by (simp add: rejection_def n)
  have g: "Generate (text' (form t)) (numQuestions (form t)) (difficulty (form t))
      (filter' (form t)) (negativeMarking (form t)) = Generate t 10 Medium [] False" for t
    by (simp add: form_def)
  from a b c d show ?thesis
    unfolding r1 r2 r3 rej g by (simp add: m)
qed

section \<open>The response validation\<close>


lemma basic_validation_cases:
  "basic_validation nullMessage quizData =
     (if has_questions_sequence quizData then Inr quizData
      else Inl (Error (if quizData = JNull then nullMessage
                       else ''Invalid quiz format received from API.'')))"
proof (cases quizData)
  case (JObject props)
  show ?thesis
  proof (cases "map_of props ''questions''")
    case None
    with JObject show ?thesis
      by (simp add: basic_validation_def read_questions_def has_questions_sequence_def)
  next
    case (Some d)
    with JObject show ?thesis
      by (cases d)
         (simp_all add: basic_validation_def read_questions_def has_questions_sequence_def)
  qed
qed (simp_all add: basic_validation_def read_questions_def has_questions_sequence_def)

text \<open>Claim C8. When the parsed response has no \<^verbatim>\<open>questions\<close> field that is an array,
  \<^verbatim>\<open>generateQuizFromText\<close> fails with an error whose message is
  \<^verbatim>\<open>Failed to generate quiz.\<close> followed by the message of the cause; otherwise it returns
  the parsed value. A failure of the request or of \<^verbatim>\<open>JSON.parse\<close> is wrapped the same
  way.\<close>

theorem generation_validates_questions:
  "generateQuizFromText nullMessage (Inr quizData) =
     (if has_questions_sequence quizData then Inr quizData
      else Inl (''Failed to generate quiz. '' @
                  (if quizData = JNull then nullMessage
                   else ''Invalid quiz format received from API.'')))
   \<and> generateQuizFromText nullMessage (Inl (Error cause))
       = Inl (''Failed to generate quiz. '' @ cause)"
  by (simp add: generateQuizFromText_def basic_validation_cases catch_block_def)

theorem generation_validates_questions_witness:
  "generateQuizFromText ''null has no properties''
       (Inr (JObject [(''questions'', JArray [])]))
     = Inr (JObject [(''questions'', JArray [])])
   \<and> generateQuizFromText ''null has no properties''
       (Inr (JObject [(''questions'', JString ''none'')]))
     = Inl ''Failed to generate quiz. Invalid quiz format received from API.''
   \<and> generateQuizFromText ''null has no properties'' (Inr JNull)
     = Inl ''Failed to generate quiz. null has no properties''
   \<and> generateQuizFromText ''null has no properties'' (Inl (Error ''Unexpected token''))
     = Inl ''Failed to generate quiz. Unexpected token''"
  using generation_validates_questions
          [of "''null has no properties''" "JObject [(''questions'', JArray [])]"
              "''Unexpected token''"]
        generation_validates_questions
          [of "''null has no properties''" "JObject [(''questions'', JString ''none'')]"
              "''Unexpected token''"]
        generation_validates_questions
          [of "''null has no properties''" JNull "''Unexpected token''"]
  by (simp add: has_questions_sequence_def)


end
